theory Spec2Isabelle
  imports Main
begin

section \<open>Service requests: data model\<close>

text \<open>
  The development embeds \<^verbatim>\<open>src/services/serviceRequests.service.ts\<close>. Every exported
  operation reads and writes the database through \<^verbatim>\<open>fastify.db\<close>; here the database is
  an explicit value of type \<open>Store\<close> that each operation takes and returns. An operation
  that throws returns \<open>Inl\<close> of the error together with the store as it stands at the
  throw.

  The enums of \<^verbatim>\<open>../types\<close> are datatypes. Their members are the ones this file
  names; members of \<^verbatim>\<open>InstallationRequestStatus\<close> and \<^verbatim>\<open>PaymentStatus\<close> that the file
  never names are kept under one extra constructor carrying the stored text.
\<close>

datatype ServiceRequestStatus =
  CREATED | ASSIGNED | SCHEDULED | IN_PROGRESS | PAYMENT_PENDING | COMPLETED | CANCELLED

datatype UserRole = ADMIN | FRANCHISE_OWNER | SERVICE_AGENT | CUSTOMER

datatype InstallationRequestStatus =
    INSTALLATION_SCHEDULED
  | INSTALLATION_IN_PROGRESS
  | INSTALLATION_COMPLETED
  | InstallationRequestStatus_PAYMENT_PENDING
  | InstallationRequestStatus_CANCELLED
  | InstallationRequestStatus_other string

datatype PaymentStatus = PaymentStatus_COMPLETED | PaymentStatus_other string

text \<open>
  The error constructors of \<^verbatim>\<open>../utils/errors\<close>, each with its message, and the
  \<^verbatim>\<open>RangeError\<close> that \<^verbatim>\<open>Date.prototype.toISOString\<close> throws on an invalid date.
\<close>

datatype error = notFound string | badRequest string | forbidden string | RangeError string

text \<open>
  Modelled from the spec: the table declarations of \<^verbatim>\<open>../models/schema\<close> are not among
  the sources. The columns of a service request are the ones section 3 of the
  specification lists, which are also the keys of the row that \<^verbatim>\<open>createServiceRequest\<close>
  inserts (lines 217-237). The three image columns hold the JSON text of an array of
  strings; the model keeps the array itself. \<open>None\<close> is SQL \<^verbatim>\<open>NULL\<close>.
\<close>

record ServiceRequest =
  sr_id :: string
  sr_subscriptionId :: "string option"
  sr_customerId :: string
  sr_productId :: string
  sr_installationRequestId :: "string option"
  sr_type :: string
  sr_description :: string
  sr_images :: "string list option"
  sr_status :: ServiceRequestStatus
  sr_assignedToId :: "string option"
  sr_franchiseId :: "string option"
  sr_scheduledDate :: "string option"
  sr_completedDate :: "string option"
  sr_beforeImages :: "string list option"
  sr_afterImages :: "string list option"
  sr_requiresPayment :: bool
  sr_paymentAmount :: "int option"
  sr_createdAt :: string
  sr_updatedAt :: string

text \<open>
  Modelled from the spec: of the other tables only the columns this file reads or writes
  are kept. The status of an installation request is optional because
  \<^verbatim>\<open>syncInstallationRequestStatus\<close> can write \<^verbatim>\<open>null\<close> into it.
\<close>

record InstallationRequest =
  ir_id :: string
  ir_customerId :: string
  ir_productId :: string
  ir_franchiseId :: "string option"
  ir_status :: "InstallationRequestStatus option"
  ir_assignedTechnicianId :: "string option"

record User =
  u_id :: string
  u_role :: UserRole

record Franchise =
  f_id :: string
  f_ownerId :: string

record Payment =
  p_installationRequestId :: "string option"
  p_status :: PaymentStatus

record Store =
  serviceRequests :: "ServiceRequest list"
  installationRequests :: "InstallationRequest list"
  users :: "User list"
  franchises :: "Franchise list"
  payments :: "Payment list"

text \<open>The acting user, as the authentication plugin decodes it from the token.\<close>

record Actor =
  userId :: string
  role :: UserRole

text \<open>
  The optional argument \<^verbatim>\<open>data\<close> of \<^verbatim>\<open>updateServiceRequestStatus\<close>. The source reads it
  only through \<^verbatim>\<open>data?.field\<close>, so an absent \<^verbatim>\<open>data\<close> is the record with every field
  \<open>None\<close>. Amounts are whole numbers in the model.
\<close>

record TransitionData =
  agentId :: "string option"
  completedAt :: "string option"
  scheduledDate :: "string option"
  paymentAmount :: "int option"
  images :: "string list option"

text \<open>
  The object \<^verbatim>\<open>updateData\<close> that \<^verbatim>\<open>updateServiceRequestStatus\<close> builds (lines 478-494),
  one field for each key the source can set on it.
\<close>

record UpdateData =
  ud_status :: ServiceRequestStatus
  ud_updatedAt :: string
  ud_assignedAgentId :: "string option"
  ud_scheduledDate :: "string option"
  ud_paymentAmount :: "int option"
  ud_completedAt :: "string option"
  ud_beforeImages :: "string list option"
  ud_afterImages :: "string list option"

section \<open>JavaScript helpers\<close>

text \<open>Truthiness of an optional string: \<^verbatim>\<open>undefined\<close>, \<^verbatim>\<open>null\<close> and \<^verbatim>\<open>''\<close> are falsy.\<close>

definition truthy :: "string option \<Rightarrow> bool" where
  "truthy s = (case s of None \<Rightarrow> False | Some v \<Rightarrow> v \<noteq> [])"

text \<open>Truthiness of an optional number: \<^verbatim>\<open>undefined\<close> and \<^verbatim>\<open>0\<close> are falsy.\<close>

definition truthyNum :: "int option \<Rightarrow> bool" where
  "truthyNum n = (case n of None \<Rightarrow> False | Some v \<Rightarrow> v \<noteq> 0)"

text \<open>The test \<^verbatim>\<open>!data?.paymentAmount || data.paymentAmount <= 0\<close>.\<close>

definition noPositiveAmount :: "int option \<Rightarrow> bool" where
  "noPositiveAmount n = (case n of None \<Rightarrow> True | Some v \<Rightarrow> v = 0 \<or> v \<le> 0)"

text \<open>The test \<^verbatim>\<open>!data?.images || data.images.length === 0\<close>.\<close>

definition noImages :: "string list option \<Rightarrow> bool" where
  "noImages imgs = (case imgs of None \<Rightarrow> True | Some xs \<Rightarrow> length xs = 0)"

text \<open>\<^verbatim>\<open>Array.prototype.join\<close>.\<close>

fun join :: "string \<Rightarrow> string list \<Rightarrow> string" where
  "join sep [] = []"
| "join sep [x] = x"
| "join sep (x # y # ys) = x @ sep @ join sep (y # ys)"

text \<open>
  Modelled from the spec: the string value of each member of \<^verbatim>\<open>ServiceRequestStatus\<close> is
  declared in \<^verbatim>\<open>../types\<close>, which is not among the sources; it is taken to be the
  member's name, as the specification's transition table writes it. It is used only
  to build the text of an error message.
\<close>

fun statusText :: "ServiceRequestStatus \<Rightarrow> string" where
  "statusText CREATED = ''CREATED''"
| "statusText ASSIGNED = ''ASSIGNED''"
| "statusText SCHEDULED = ''SCHEDULED''"
| "statusText IN_PROGRESS = ''IN_PROGRESS''"
| "statusText PAYMENT_PENDING = ''PAYMENT_PENDING''"
| "statusText COMPLETED = ''COMPLETED''"
| "statusText CANCELLED = ''CANCELLED''"

section \<open>Reading and writing the store\<close>

text \<open>
  \<^verbatim>\<open>getServiceRequestById\<close> (lines 86-169): the first row with the given id. The source
  also joins the related rows and derives a \<^verbatim>\<open>paymentStatus\<close> for display; no operation
  below reads either, and the model returns the row alone.
\<close>

definition getServiceRequestById :: "Store \<Rightarrow> string \<Rightarrow> ServiceRequest option" where
  "getServiceRequestById st i = find (\<lambda>r. sr_id r = i) (serviceRequests st)"

text \<open>
  \<^verbatim>\<open>getFranchiseById\<close> (lines 19-24). The callers pass a nullable column; a comparison
  with \<^verbatim>\<open>NULL\<close> selects no row.
\<close>

definition getFranchiseById :: "Store \<Rightarrow> string option \<Rightarrow> Franchise option" where
  "getFranchiseById st fid =
     (case fid of None \<Rightarrow> None | Some i \<Rightarrow> find (\<lambda>f. f_id f = i) (franchises st))"

text \<open>
  \<^verbatim>\<open>db.update(serviceRequests).set(...).where(eq(serviceRequests.id, id))\<close>: every row with
  that id is rewritten, the others are kept, and the order of the table is unchanged.
\<close>

definition updateServiceRequests ::
  "string \<Rightarrow> (ServiceRequest \<Rightarrow> ServiceRequest) \<Rightarrow> Store \<Rightarrow> Store" where
  "updateServiceRequests i f st =
     st\<lparr>serviceRequests := map (\<lambda>r. if sr_id r = i then f r else r) (serviceRequests st)\<rparr>"

definition updateInstallationRequests ::
  "string \<Rightarrow> (InstallationRequest \<Rightarrow> InstallationRequest) \<Rightarrow> Store \<Rightarrow> Store" where
  "updateInstallationRequests i f st =
     st\<lparr>installationRequests :=
          map (\<lambda>r. if ir_id r = i then f r else r) (installationRequests st)\<rparr>"

text \<open>
  What \<^verbatim>\<open>.set(updateData)\<close> writes into a row. The query builder writes the keys that
  name a column of the table and passes over the others. \<^verbatim>\<open>assignedAgentId\<close> and
  \<^verbatim>\<open>completedAt\<close> name no column of a service request (the columns are \<^verbatim>\<open>assignedToId\<close>
  and \<^verbatim>\<open>completedDate\<close>), so these two keys of \<^verbatim>\<open>updateData\<close> reach no column. A key that
  was never set on the object leaves its column as it is.
\<close>

definition setUpdateData :: "UpdateData \<Rightarrow> ServiceRequest \<Rightarrow> ServiceRequest" where
  "setUpdateData u r =
     r\<lparr>sr_status := ud_status u,
       sr_updatedAt := ud_updatedAt u,
       sr_scheduledDate :=
         (case ud_scheduledDate u of None \<Rightarrow> sr_scheduledDate r | Some d \<Rightarrow> Some d),
       sr_paymentAmount :=
         (case ud_paymentAmount u of None \<Rightarrow> sr_paymentAmount r | Some a \<Rightarrow> Some a),
       sr_beforeImages :=
         (case ud_beforeImages u of None \<Rightarrow> sr_beforeImages r | Some xs \<Rightarrow> Some xs),
       sr_afterImages :=
         (case ud_afterImages u of None \<Rightarrow> sr_afterImages r | Some xs \<Rightarrow> Some xs)\<rparr>"

section \<open>The status update\<close>

text \<open>The table \<^verbatim>\<open>validTransitions\<close> (lines 414-422).\<close>

fun validTransitions :: "ServiceRequestStatus \<Rightarrow> ServiceRequestStatus list" where
  "validTransitions CREATED = [ASSIGNED, CANCELLED]"
| "validTransitions ASSIGNED = [SCHEDULED, CANCELLED]"
| "validTransitions SCHEDULED = [IN_PROGRESS, CANCELLED]"
| "validTransitions IN_PROGRESS = [PAYMENT_PENDING, COMPLETED, CANCELLED]"
| "validTransitions PAYMENT_PENDING = [COMPLETED, CANCELLED]"
| "validTransitions COMPLETED = []"
| "validTransitions CANCELLED = [ASSIGNED, SCHEDULED]"

text \<open>The message of the error thrown at line 426.\<close>

definition invalidTransitionMessage ::
  "ServiceRequestStatus \<Rightarrow> ServiceRequestStatus \<Rightarrow> string" where
  "invalidTransitionMessage currentStatus status =
     ''Invalid status transition from '' @ statusText currentStatus @ '' to ''
       @ statusText status @ ''. Valid transitions are: ''
       @ (let joined = join '', '' (map statusText (validTransitions currentStatus))
          in if joined = [] then ''none'' else joined)"

text \<open>
  The \<^verbatim>\<open>switch (status)\<close> of lines 430-476: the error it throws, or \<open>None\<close> when it
  falls through to the update. \<^verbatim>\<open>CREATED\<close> and \<^verbatim>\<open>CANCELLED\<close> have no case.
\<close>

fun statusSpecificValidation ::
  "ServiceRequest \<Rightarrow> ServiceRequestStatus \<Rightarrow> TransitionData \<Rightarrow> error option" where
  "statusSpecificValidation serviceRequest ASSIGNED d =
     (if \<not> truthy (agentId d) then Some (badRequest ''Agent ID is required for assignment'')
      else None)"
| "statusSpecificValidation serviceRequest SCHEDULED d =
     (if \<not> truthy (sr_assignedToId serviceRequest)
        then Some (badRequest ''Cannot schedule without assigned agent'')
      else if \<not> truthy (scheduledDate d)
        then Some (badRequest ''Scheduled date is required'')
      else None)"
| "statusSpecificValidation serviceRequest IN_PROGRESS d =
     (if sr_type serviceRequest = ''installation'' \<and> noImages (images d)
        then Some (badRequest
               ''Before images are required to start installation service requests'')
      else None)"
| "statusSpecificValidation serviceRequest PAYMENT_PENDING d =
     (if \<not> sr_requiresPayment serviceRequest
        then Some (badRequest ''This service request does not require payment'')
      else if noPositiveAmount (paymentAmount d)
        then Some (badRequest ''Payment amount is required'')
      else if noImages (images d)
        then Some (badRequest ''Completion images are required before requesting payment'')
      else None)"
| "statusSpecificValidation serviceRequest COMPLETED d =
     (if noImages (images d)
        then Some (badRequest ''Completion images are required to mark as completed'')
      else if sr_requiresPayment serviceRequest \<and> sr_status serviceRequest = IN_PROGRESS
        then Some (badRequest
          ''Service requests requiring payment must go through PAYMENT_PENDING status first'')
      else None)"
| "statusSpecificValidation serviceRequest CREATED d = None"
| "statusSpecificValidation serviceRequest CANCELLED d = None"

text \<open>
  Lines 478-494. \<open>nowIso\<close> is the value of \<^verbatim>\<open>new Date().toISOString()\<close> at the call.
\<close>

definition buildUpdateData ::
  "string \<Rightarrow> ServiceRequestStatus \<Rightarrow> TransitionData \<Rightarrow> UpdateData" where
  "buildUpdateData nowIso status d =
     \<lparr>ud_status = status,
      ud_updatedAt = nowIso,
      ud_assignedAgentId = (if truthy (agentId d) then agentId d else None),
      ud_scheduledDate = (if truthy (scheduledDate d) then scheduledDate d else None),
      ud_paymentAmount = (if truthyNum (paymentAmount d) then paymentAmount d else None),
      ud_completedAt = (if status = COMPLETED then Some nowIso else None),
      ud_beforeImages =
        (if \<not> noImages (images d) \<and> status = IN_PROGRESS then images d else None),
      ud_afterImages =
        (if \<not> noImages (images d) \<and> status \<noteq> IN_PROGRESS then images d else None)\<rparr>"

text \<open>
  \<^verbatim>\<open>updateServiceRequestStatus\<close> (lines 392-529). The calls of \<^verbatim>\<open>logActionHistory\<close> go to
  the audit log of \<^verbatim>\<open>../utils/actionHistory\<close>, which is not among the sources. By
  section 6 of the specification an append to the log never fails the operation, and
  no operation here reads the log back; the model leaves the log out, here and in the
  operations below. The argument \<open>user\<close> is read for the log only. The function calls
  neither \<^verbatim>\<open>validateServiceRequestTransition\<close> nor \<^verbatim>\<open>syncInstallationRequestStatus\<close>.
\<close>

definition updateServiceRequestStatus ::
  "string \<Rightarrow> Store \<Rightarrow> string \<Rightarrow> ServiceRequestStatus \<Rightarrow> Actor \<Rightarrow> TransitionData
     \<Rightarrow> (error + ServiceRequest option) \<times> Store" where
  "updateServiceRequestStatus nowIso st i status user d =
     (case getServiceRequestById st i of
        None \<Rightarrow> (Inl (notFound ''Service Request''), st)
      | Some serviceRequest \<Rightarrow>
          let currentStatus = sr_status serviceRequest in
          if status \<notin> set (validTransitions currentStatus)
            then (Inl (badRequest (invalidTransitionMessage currentStatus status)), st)
          else
            (case statusSpecificValidation serviceRequest status d of
               Some e \<Rightarrow> (Inl e, st)
             | None \<Rightarrow>
                 let st' = updateServiceRequests i
                             (setUpdateData (buildUpdateData nowIso status d)) st
                 in (Inr (getServiceRequestById st' i), st')))"

section \<open>The validator and the synchroniser that no operation calls\<close>

text \<open>
  The argument \<^verbatim>\<open>images\<close> of the two validators of lines 532-620.
\<close>

record ImageEvidence =
  beforeImages :: "string list option"
  afterImages :: "string list option"

text \<open>The test \<^verbatim>\<open>!images?.afterImages || images.afterImages.length === 0\<close>.\<close>

definition noAfterImages :: "ImageEvidence option \<Rightarrow> bool" where
  "noAfterImages ev = (case ev of None \<Rightarrow> True | Some e \<Rightarrow> noImages (afterImages e))"

text \<open>
  The query of lines 609-612: the first payment whose \<^verbatim>\<open>installationRequestId\<close> is the
  one of the service request and whose status is \<^verbatim>\<open>PaymentStatus.COMPLETED\<close>. A service
  request without a link compares the column with \<^verbatim>\<open>NULL\<close> and selects no row.
\<close>

definition completedInstallationPayment :: "Store \<Rightarrow> ServiceRequest \<Rightarrow> Payment option" where
  "completedInstallationPayment st sr =
     (case sr_installationRequestId sr of
        None \<Rightarrow> None
      | Some irid \<Rightarrow>
          find (\<lambda>p. p_installationRequestId p = Some irid \<and> p_status p = PaymentStatus_COMPLETED)
               (payments st))"

text \<open>
  \<^verbatim>\<open>validateInstallationSpecificTransitions\<close> (lines 587-620): the error it throws, or
  \<open>None\<close> when it returns. Its only caller is \<^verbatim>\<open>validateServiceRequestTransition\<close>
  (lines 532-584), which nothing calls.
\<close>

definition validateInstallationSpecificTransitions ::
  "Store \<Rightarrow> ServiceRequest \<Rightarrow> ServiceRequestStatus \<Rightarrow> ServiceRequestStatus
     \<Rightarrow> ImageEvidence option \<Rightarrow> error option" where
  "validateInstallationSpecificTransitions st sr currentStatus newStatus ev =
     (if currentStatus = IN_PROGRESS \<and> newStatus = COMPLETED
        then Some (badRequest
          ''Installation service requests must go through PAYMENT_PENDING status before completion'')
      else if currentStatus = IN_PROGRESS \<and> newStatus = PAYMENT_PENDING \<and> noAfterImages ev
        then Some (badRequest
          ''Installation completion images are required before moving to payment pending'')
      else if currentStatus = PAYMENT_PENDING \<and> newStatus = COMPLETED
              \<and> completedInstallationPayment st sr = None
        then Some (badRequest ''please complete payment first'')
      else None)"

text \<open>The \<^verbatim>\<open>switch\<close> of lines 644-661; \<open>None\<close> is the initial \<^verbatim>\<open>null\<close>.\<close>

fun installationStatusFor :: "ServiceRequestStatus \<Rightarrow> InstallationRequestStatus option" where
  "installationStatusFor IN_PROGRESS = Some INSTALLATION_IN_PROGRESS"
| "installationStatusFor PAYMENT_PENDING = Some InstallationRequestStatus_PAYMENT_PENDING"
| "installationStatusFor COMPLETED = Some INSTALLATION_COMPLETED"
| "installationStatusFor CANCELLED = Some InstallationRequestStatus_CANCELLED"
| "installationStatusFor CREATED = None"
| "installationStatusFor ASSIGNED = None"
| "installationStatusFor SCHEDULED = None"

text \<open>
  \<^verbatim>\<open>syncInstallationRequestStatus\<close> (lines 633-675), without its log entry. The update
  of line 662 is not guarded: it writes the mapped status, or \<^verbatim>\<open>null\<close> when the
  \<^verbatim>\<open>switch\<close> matched no case. Nothing in the file calls this function.
\<close>

definition syncInstallationRequestStatus ::
  "Store \<Rightarrow> string \<Rightarrow> ServiceRequestStatus \<Rightarrow> Store" where
  "syncInstallationRequestStatus st installationRequestId serviceRequestStatus =
     updateInstallationRequests installationRequestId
       (\<lambda>r. r\<lparr>ir_status := installationStatusFor serviceRequestStatus\<rparr>) st"

section \<open>Assignment and scheduling\<close>

text \<open>\<^verbatim>\<open>assignServiceAgent\<close> (lines 677-723).\<close>

definition assignServiceAgent ::
  "string \<Rightarrow> Store \<Rightarrow> string \<Rightarrow> string \<Rightarrow> Actor
     \<Rightarrow> (error + ServiceRequest option) \<times> Store" where
  "assignServiceAgent nowIso st i assignedToId user =
     (case getServiceRequestById st i of
        None \<Rightarrow> (Inl (notFound ''Service Request''), st)
      | Some sr \<Rightarrow>
          if role user \<notin> set [ADMIN, FRANCHISE_OWNER]
            then (Inl (forbidden ''You do not have permission to assign service agents''), st)
          else if role user = FRANCHISE_OWNER
                  \<and> (case getFranchiseById st (sr_franchiseId sr) of
                        None \<Rightarrow> True
                      | Some franchise \<Rightarrow> f_ownerId franchise \<noteq> userId user)
            then (Inl (forbidden ''Service request is not in your franchise area''), st)
          else
            (case find (\<lambda>u. u_id u = assignedToId) (users st) of
               None \<Rightarrow> (Inl (badRequest ''Invalid service agent''), st)
             | Some agent \<Rightarrow>
                 if u_role agent \<noteq> SERVICE_AGENT
                   then (Inl (badRequest ''Invalid service agent''), st)
                 else
                   let st' = updateServiceRequests i
                               (\<lambda>r. r\<lparr>sr_assignedToId := Some assignedToId,
                                      sr_status := ASSIGNED,
                                      sr_updatedAt := nowIso\<rparr>) st
                   in (Inr (getServiceRequestById st' i), st')))"

text \<open>The permission test of lines 750-759.\<close>

definition hasSchedulePermission :: "Store \<Rightarrow> ServiceRequest \<Rightarrow> Actor \<Rightarrow> bool" where
  "hasSchedulePermission st sr user =
     (if role user = ADMIN then True
      else if role user = SERVICE_AGENT \<and> sr_assignedToId sr = Some (userId user) then True
      else if role user = FRANCHISE_OWNER
        then (case getFranchiseById st (sr_franchiseId sr) of
                None \<Rightarrow> False
              | Some franchise \<Rightarrow> f_ownerId franchise = userId user)
      else False)"

text \<open>
  \<^verbatim>\<open>scheduleServiceRequest\<close> (lines 744-792). Instants are milliseconds since the epoch.
  \<open>parseDate\<close> is \<^verbatim>\<open>new Date(text)\<close>, with \<open>None\<close> for an invalid date; \<open>toISOString\<close> is
  the method of that name; \<open>now\<close> is the instant that \<^verbatim>\<open>new Date()\<close> reads during the
  call. An invalid date passes the comparison of line 765, which is false for it, and
  then makes \<^verbatim>\<open>toISOString\<close> throw at line 771, before the update is sent.
\<close>

definition scheduleServiceRequest ::
  "(string \<Rightarrow> int option) \<Rightarrow> (int \<Rightarrow> string) \<Rightarrow> int \<Rightarrow> Store \<Rightarrow> string \<Rightarrow> string \<Rightarrow> Actor
     \<Rightarrow> (error + ServiceRequest option) \<times> Store" where
  "scheduleServiceRequest parseDate toISOString now st i scheduledDateText user =
     (case getServiceRequestById st i of
        None \<Rightarrow> (Inl (notFound ''Service Request''), st)
      | Some sr \<Rightarrow>
          if \<not> hasSchedulePermission st sr user
            then (Inl (forbidden
                    ''You do not have permission to schedule this service request''), st)
          else
            (case parseDate scheduledDateText of
               None \<Rightarrow> (Inl (RangeError ''Invalid time value''), st)
             | Some scheduledDateTime \<Rightarrow>
                 if scheduledDateTime \<le> now
                   then (Inl (badRequest ''Scheduled date must be in the future''), st)
                 else
                   let st' = updateServiceRequests i
                               (\<lambda>r. r\<lparr>sr_scheduledDate := Some (toISOString scheduledDateTime),
                                      sr_status := SCHEDULED,
                                      sr_updatedAt := toISOString now\<rparr>) st
                   in (Inr (getServiceRequestById st' i), st')))"

section \<open>Creating the service request of an installation\<close>

text \<open>
  Modelled from the spec: \<^verbatim>\<open>ServiceRequestType\<close> is declared in \<^verbatim>\<open>../types\<close>, which is not
  among the sources. The value of its member \<^verbatim>\<open>INSTALLATION\<close> is taken to be the text
  that lines 133 and 448 compare the column \<^verbatim>\<open>type\<close> with.
\<close>

definition ServiceRequestType_INSTALLATION :: string where
  "ServiceRequestType_INSTALLATION = ''installation''"

text \<open>The argument \<^verbatim>\<open>data\<close> of \<^verbatim>\<open>createInstallationServiceRequest\<close>.\<close>

record InstallationServiceData =
  installationRequestId :: string
  assignedToId :: "string option"
  newScheduledDate :: "string option"
  description :: string

text \<open>The query of lines 280-285.\<close>

definition existingInstallationServiceRequest :: "Store \<Rightarrow> string \<Rightarrow> ServiceRequest option" where
  "existingInstallationServiceRequest st irid =
     find (\<lambda>r. sr_installationRequestId r = Some irid \<and> sr_type r = ServiceRequestType_INSTALLATION)
          (serviceRequests st)"

text \<open>The row of lines 318-339; the key \<^verbatim>\<open>requirePayment\<close> names no column.\<close>

definition newInstallationServiceRequest ::
  "string \<Rightarrow> string \<Rightarrow> InstallationRequest \<Rightarrow> InstallationServiceData \<Rightarrow> ServiceRequest" where
  "newInstallationServiceRequest newId nowIso installationRequest d =
     \<lparr>sr_id = newId,
      sr_subscriptionId = None,
      sr_customerId = ir_customerId installationRequest,
      sr_productId = ir_productId installationRequest,
      sr_installationRequestId = Some (installationRequestId d),
      sr_type = ServiceRequestType_INSTALLATION,
      sr_description = description d,
      sr_images = None,
      sr_status = (if truthy (assignedToId d) then SCHEDULED else CREATED),
      sr_assignedToId = (if truthy (assignedToId d) then assignedToId d else None),
      sr_franchiseId = ir_franchiseId installationRequest,
      sr_scheduledDate = (if truthy (newScheduledDate d) then newScheduledDate d else None),
      sr_completedDate = None,
      sr_beforeImages = None,
      sr_afterImages = None,
      sr_requiresPayment = True,
      sr_paymentAmount = None,
      sr_createdAt = nowIso,
      sr_updatedAt = nowIso\<rparr>"

text \<open>
  The branch of lines 286-297, taken when the service request of the installation
  exists already. A key whose value is \<^verbatim>\<open>undefined\<close> is not written.
\<close>

definition rescheduleExisting ::
  "Store \<Rightarrow> ServiceRequest \<Rightarrow> InstallationRequest \<Rightarrow> InstallationServiceData \<Rightarrow> Store" where
  "rescheduleExisting st existingServiceRequest installationRequest d =
     updateInstallationRequests (ir_id installationRequest)
       (\<lambda>r. r\<lparr>ir_status := Some INSTALLATION_SCHEDULED\<rparr>)
       (updateServiceRequests (sr_id existingServiceRequest)
          (\<lambda>r. r\<lparr>sr_status := SCHEDULED,
                 sr_assignedToId :=
                   (case assignedToId d of None \<Rightarrow> sr_assignedToId r | Some a \<Rightarrow> Some a)\<rparr>)
          st)"

text \<open>
  \<^verbatim>\<open>createInstallationServiceRequest\<close> (lines 259-389). \<open>newId\<close> is the identifier that
  \<^verbatim>\<open>generateId\<close> returns, taken to be unused; the insert appends the row. Both branches
  end by reading the row with the new id, which the first branch never wrote.
\<close>

definition createInstallationServiceRequest ::
  "string \<Rightarrow> string \<Rightarrow> Store \<Rightarrow> InstallationServiceData \<Rightarrow> Actor
     \<Rightarrow> (error + ServiceRequest option) \<times> Store" where
  "createInstallationServiceRequest newId nowIso st d user =
     (case find (\<lambda>r. ir_id r = installationRequestId d) (installationRequests st) of
        None \<Rightarrow> (Inl (notFound ''Installation Request''), st)
      | Some installationRequest \<Rightarrow>
          (case existingInstallationServiceRequest st (installationRequestId d) of
             Some existingServiceRequest \<Rightarrow>
               let st' = rescheduleExisting st existingServiceRequest installationRequest d
               in (Inr (getServiceRequestById st' newId), st')
           | None \<Rightarrow>
               if role user = FRANCHISE_OWNER
                  \<and> (case getFranchiseById st (ir_franchiseId installationRequest) of
                        None \<Rightarrow> True
                      | Some franchise \<Rightarrow> f_ownerId franchise \<noteq> userId user)
                 then (Inl (forbidden ''Installation request is not in your franchise area''), st)
               else if truthy (assignedToId d)
                       \<and> (case find (\<lambda>u. Some (u_id u) = assignedToId d) (users st) of
                             None \<Rightarrow> True
                           | Some agent \<Rightarrow> u_role agent \<noteq> SERVICE_AGENT)
                 then (Inl (badRequest ''Invalid service agent''), st)
               else
                 let inserted = st\<lparr>serviceRequests := serviceRequests st
                                     @ [newInstallationServiceRequest newId nowIso installationRequest d]\<rparr>;
                     st' = updateInstallationRequests (ir_id installationRequest)
                             (\<lambda>r. r\<lparr>ir_status := Some INSTALLATION_SCHEDULED,
                                    ir_assignedTechnicianId :=
                                      (case assignedToId d of
                                         None \<Rightarrow> ir_assignedTechnicianId r
                                       | Some a \<Rightarrow> Some a)\<rparr>) inserted
                 in (Inr (getServiceRequestById st' newId), st')))"

section \<open>Scenario data\<close>

text \<open>
  A general service request of customer \<open>cust_1\<close> in franchise \<open>fr_1\<close>, as
  \<^verbatim>\<open>createServiceRequest\<close> inserts it; the scenarios vary its status, type and links.
\<close>

definition sampleRequest :: ServiceRequest where
  "sampleRequest =
     \<lparr>sr_id = ''srq_1'',
      sr_subscriptionId = None,
      sr_customerId = ''cust_1'',
      sr_productId = ''prod_1'',
      sr_installationRequestId = None,
      sr_type = ''general'',
      sr_description = ''filter change'',
      sr_images = None,
      sr_status = CREATED,
      sr_assignedToId = None,
      sr_franchiseId = Some ''fr_1'',
      sr_scheduledDate = None,
      sr_completedDate = None,
      sr_beforeImages = None,
      sr_afterImages = None,
      sr_requiresPayment = False,
      sr_paymentAmount = None,
      sr_createdAt = ''2025-12-01T00:00:00.000Z'',
      sr_updatedAt = ''2025-12-01T00:00:00.000Z''\<rparr>"

definition sampleInstallationRequest :: InstallationRequest where
  "sampleInstallationRequest =
     \<lparr>ir_id = ''inst_1'',
      ir_customerId = ''cust_1'',
      ir_productId = ''prod_1'',
      ir_franchiseId = Some ''fr_1'',
      ir_status = Some INSTALLATION_SCHEDULED,
      ir_assignedTechnicianId = None\<rparr>"

text \<open>A store with one service request, one installation request and no payment.\<close>

definition sampleStore :: "ServiceRequest \<Rightarrow> Store" where
  "sampleStore r =
     \<lparr>serviceRequests = [r],
      installationRequests = [sampleInstallationRequest],
      users = [\<lparr>u_id = ''agent_1'', u_role = SERVICE_AGENT\<rparr>,
               \<lparr>u_id = ''owner_1'', u_role = FRANCHISE_OWNER\<rparr>],
      franchises = [\<lparr>f_id = ''fr_1'', f_ownerId = ''owner_1''\<rparr>],
      payments = []\<rparr>"

definition admin :: Actor where
  "admin = \<lparr>userId = ''admin_1'', role = ADMIN\<rparr>"

definition customer :: Actor where
  "customer = \<lparr>userId = ''cust_9'', role = CUSTOMER\<rparr>"

definition noData :: TransitionData where
  "noData = \<lparr>agentId = None, completedAt = None, scheduledDate = None,
              paymentAmount = None, images = None\<rparr>"

text \<open>
  The clock of the scenarios: the first instant of 2026. \<open>sampleParseDate\<close> and
  \<open>sampleToISOString\<close> are \<^verbatim>\<open>new Date(text)\<close> and \<^verbatim>\<open>toISOString\<close> on the three dates
  the scenarios use; every other text is an invalid date.
\<close>

definition sampleNow :: int where
  "sampleNow = 1767225600000"

definition sampleParseDate :: "string \<Rightarrow> int option" where
  "sampleParseDate t =
     (if t = ''2000-01-01T00:00:00.000Z'' then Some 946684800000
      else if t = ''2026-01-01T00:00:00.000Z'' then Some 1767225600000
      else if t = ''2030-01-01T00:00:00.000Z'' then Some 1893456000000
      else None)"

definition sampleToISOString :: "int \<Rightarrow> string" where
  "sampleToISOString n =
     (if n = 946684800000 then ''2000-01-01T00:00:00.000Z''
      else if n = 1767225600000 then ''2026-01-01T00:00:00.000Z''
      else if n = 1893456000000 then ''2030-01-01T00:00:00.000Z''
      else [])"

text \<open>
  The service request of installation \<open>inst_1\<close>, as a customer can create it through
  \<^verbatim>\<open>createServiceRequest\<close> with type installation and no payment flag.
\<close>

definition sampleInstallationService :: ServiceRequest where
  "sampleInstallationService =
     sampleRequest\<lparr>sr_installationRequestId := Some ''inst_1'', sr_type := ''installation''\<rparr>"

definition withImages :: "string list \<Rightarrow> TransitionData" where
  "withImages xs = noData\<lparr>images := Some xs\<rparr>"

text \<open>A call of \<^verbatim>\<open>createInstallationServiceRequest\<close> for \<open>inst_1\<close> that names an unknown agent.\<close>

definition sampleInstallationData :: InstallationServiceData where
  "sampleInstallationData =
     \<lparr>installationRequestId = ''inst_1'',
      assignedToId = Some ''nobody'',
      newScheduledDate = None,
      description = ''Installation service request''\<rparr>"

lemmas sample_defs =
  sampleRequest_def sampleInstallationRequest_def sampleStore_def admin_def customer_def
  noData_def

lemmas scenario_defs =
  sample_defs sampleInstallationService_def withImages_def sampleNow_def
  sampleParseDate_def sampleToISOString_def sampleInstallationData_def

lemmas update_defs =
  updateServiceRequestStatus_def getServiceRequestById_def updateServiceRequests_def
  setUpdateData_def buildUpdateData_def noImages_def truthy_def truthyNum_def
  noPositiveAmount_def

section \<open>Properties\<close>

subsection \<open>Reading a row back after an update\<close>

lemma find_map_same_id:
  assumes "\<And>r. sr_id (f r) = sr_id r"
  shows "find (\<lambda>r. sr_id r = i) (map (\<lambda>r. if sr_id r = i then f r else r) xs)
           = map_option f (find (\<lambda>r. sr_id r = i) xs)"
  by (induction xs) (simp_all add: assms)

lemma getServiceRequestById_updated:
  assumes "\<And>r. sr_id (f r) = sr_id r"
  shows "getServiceRequestById (updateServiceRequests i f st) i
           = map_option f (getServiceRequestById st i)"
  by (simp add: getServiceRequestById_def updateServiceRequests_def find_map_same_id assms)

lemma setUpdateData_id: "sr_id (setUpdateData u r) = sr_id r"
  by (simp add: setUpdateData_def)

lemma updateServiceRequestStatus_accepted:
  assumes "getServiceRequestById st i = Some sr"
    and "status \<in> set (validTransitions (sr_status sr))"
    and "statusSpecificValidation sr status d = None"
  shows "updateServiceRequestStatus nowIso st i status user d =
           (Inr (Some (setUpdateData (buildUpdateData nowIso status d) sr)),
            updateServiceRequests i (setUpdateData (buildUpdateData nowIso status d)) st)"
  using assms
  by (simp add: updateServiceRequestStatus_def Let_def getServiceRequestById_updated
        setUpdateData_id)


text \<open>
  C1. For a service request that exists, a target status that is not in the row of the
  transition table for the current status is rejected with the bad-request error whose
  message names the current status and the allowed set, whoever the acting user is and
  whatever data is supplied, and the store is returned as it was. In particular every
  request for the status the entity already has is rejected.
\<close>

theorem invalid_transition_rejected:
  assumes "getServiceRequestById st i = Some serviceRequest"
    and "status \<notin> set (validTransitions (sr_status serviceRequest)) \<or> status = sr_status serviceRequest"
  shows "updateServiceRequestStatus nowIso st i status user d =
           (Inl (badRequest (invalidTransitionMessage (sr_status serviceRequest) status)), st)"
proof -
  have "status \<notin> set (validTransitions (sr_status serviceRequest))"
    using assms(2) by (cases "sr_status serviceRequest") auto
  then show ?thesis
    using assms(1) by (simp add: updateServiceRequestStatus_def)
qed

theorem invalid_transition_rejected_witness:
  "updateServiceRequestStatus ''2026-01-01T00:00:00.000Z''
     (sampleStore (sampleRequest\<lparr>sr_status := SCHEDULED\<rparr>)) ''srq_1'' SCHEDULED admin noData
   = (Inl (badRequest
        ''Invalid status transition from SCHEDULED to SCHEDULED. Valid transitions are: IN_PROGRESS, CANCELLED''),
      sampleStore (sampleRequest\<lparr>sr_status := SCHEDULED\<rparr>))"
  using invalid_transition_rejected
    [of "sampleStore (sampleRequest\<lparr>sr_status := SCHEDULED\<rparr>)" "''srq_1''"
        "sampleRequest\<lparr>sr_status := SCHEDULED\<rparr>" SCHEDULED
        "''2026-01-01T00:00:00.000Z''" admin noData]
  by (simp add: sample_defs getServiceRequestById_def invalidTransitionMessage_def)

text \<open>
  C2 (as amended). On the edge from \<^verbatim>\<open>SCHEDULED\<close> to \<^verbatim>\<open>IN_PROGRESS\<close>, a service request
  of type installation is rejected with a bad-request error unless at least one image
  is supplied, and the store is then returned as it was; when one is supplied the
  transition is accepted and the images are stored as the before-images: the row that
  the store returned by the call holds under the id is the row the call returns, it
  is the row found before with the new status, update time and before-images (and the
  scheduled date and payment amount, when the data carry them), and every row of the
  new table with that id has the new status and the images as its before-images.
\<close>

theorem installation_start_requires_images:
  assumes "getServiceRequestById st i = Some sr"
    and "sr_type sr = ServiceRequestType_INSTALLATION"
    and "sr_status sr = SCHEDULED"
  shows "if noImages (images d)
         then updateServiceRequestStatus nowIso st i IN_PROGRESS user d =
                (Inl (badRequest
                   ''Before images are required to start installation service requests''), st)
         else (\<exists>sr' st'. updateServiceRequestStatus nowIso st i IN_PROGRESS user d =
                            (Inr (Some sr'), st')
                 \<and> getServiceRequestById st' i = Some sr'
                 \<and> sr' = sr\<lparr>sr_status := IN_PROGRESS,
                             sr_updatedAt := nowIso,
                             sr_scheduledDate :=
                               (if truthy (scheduledDate d) then scheduledDate d
                                else sr_scheduledDate sr),
                             sr_paymentAmount :=
                               (if truthyNum (paymentAmount d) then paymentAmount d
                                else sr_paymentAmount sr),
                             sr_beforeImages := images d\<rparr>
                 \<and> length (serviceRequests st') = length (serviceRequests st)
                 \<and> (\<forall>r \<in> set (serviceRequests st').
                       sr_id r = i \<longrightarrow>
                         sr_status r = IN_PROGRESS \<and> sr_beforeImages r = images d))"
proof (cases "noImages (images d)")
  case True
  then show ?thesis
    using assms
    by (simp add: updateServiceRequestStatus_def ServiceRequestType_INSTALLATION_def)
next
  case False
  let ?u = "buildUpdateData nowIso IN_PROGRESS d"
  let ?st' = "updateServiceRequests i (setUpdateData ?u) st"
  have images_kept: "ud_beforeImages ?u = images d" "ud_afterImages ?u = None"
    using False by (simp_all add: buildUpdateData_def)
  have "statusSpecificValidation sr IN_PROGRESS d = None"
    using False by simp
  then have accepted: "updateServiceRequestStatus nowIso st i IN_PROGRESS user d =
          (Inr (Some (setUpdateData ?u sr)), ?st')"
    using assms by (simp add: updateServiceRequestStatus_accepted)
  have reread: "getServiceRequestById ?st' i = Some (setUpdateData ?u sr)"
    using assms(1) by (simp add: getServiceRequestById_updated setUpdateData_id)
  have some_images: "\<exists>xs. images d = Some xs"
    using False by (cases "images d") (simp_all add: noImages_def)
  have row: "setUpdateData ?u sr =
               sr\<lparr>sr_status := IN_PROGRESS,
                  sr_updatedAt := nowIso,
                  sr_scheduledDate :=
                    (if truthy (scheduledDate d) then scheduledDate d
                     else sr_scheduledDate sr),
                  sr_paymentAmount :=
                    (if truthyNum (paymentAmount d) then paymentAmount d
                     else sr_paymentAmount sr),
                  sr_beforeImages := images d\<rparr>"
  proof -
    obtain xs where xs: "images d = Some xs"
      using some_images by blast
    have filled: "xs \<noteq> []"
      using False xs by (simp add: noImages_def)
    show ?thesis
      using xs filled
      by (cases "scheduledDate d"; cases "paymentAmount d")
         (simp_all add: setUpdateData_def buildUpdateData_def truthy_def truthyNum_def
            noImages_def)
  qed
  have size: "length (serviceRequests ?st') = length (serviceRequests st)"
    by (simp add: updateServiceRequests_def)
  have all_rows: "\<forall>r \<in> set (serviceRequests ?st').
                    sr_id r = i \<longrightarrow> sr_status r = IN_PROGRESS \<and> sr_beforeImages r = images d"
  proof
    fix r
    assume "r \<in> set (serviceRequests ?st')"
    then have "r \<in> (\<lambda>r0. if sr_id r0 = i then setUpdateData ?u r0 else r0)
                     ` set (serviceRequests st)"
      by (simp add: updateServiceRequests_def)
    then obtain r0 where r0: "r = (if sr_id r0 = i then setUpdateData ?u r0 else r0)"
      by (rule imageE)
    show "sr_id r = i \<longrightarrow> sr_status r = IN_PROGRESS \<and> sr_beforeImages r = images d"
    proof
      assume "sr_id r = i"
      with r0 have "r = setUpdateData ?u r0"
        by (cases "sr_id r0 = i") simp_all
      then show "sr_status r = IN_PROGRESS \<and> sr_beforeImages r = images d"
        using images_kept some_images
        by (auto simp: setUpdateData_def buildUpdateData_def)
    qed
  qed
  have "\<exists>sr' st'. updateServiceRequestStatus nowIso st i IN_PROGRESS user d =
                            (Inr (Some sr'), st')
                 \<and> getServiceRequestById st' i = Some sr'
                 \<and> sr' = sr\<lparr>sr_status := IN_PROGRESS,
                             sr_updatedAt := nowIso,
                             sr_scheduledDate :=
                               (if truthy (scheduledDate d) then scheduledDate d
                                else sr_scheduledDate sr),
                             sr_paymentAmount :=
                               (if truthyNum (paymentAmount d) then paymentAmount d
                                else sr_paymentAmount sr),
                             sr_beforeImages := images d\<rparr>
                 \<and> length (serviceRequests st') = length (serviceRequests st)
                 \<and> (\<forall>r \<in> set (serviceRequests st').
                       sr_id r = i \<longrightarrow>
                         sr_status r = IN_PROGRESS \<and> sr_beforeImages r = images d)"
    apply (rule exI [of _ "setUpdateData ?u sr"])
    apply (rule exI [of _ ?st'])
    apply (intro conjI)
        apply (rule accepted)
       apply (rule reread)
      apply (rule row)
     apply (rule size)
    apply (rule all_rows)
    done
  with False show ?thesis by (simp only: if_False)
qed

theorem installation_start_requires_images_witness:
  "getServiceRequestById
     (sampleStore (sampleInstallationService\<lparr>sr_status := SCHEDULED\<rparr>)) ''srq_1''
     = Some (sampleInstallationService\<lparr>sr_status := SCHEDULED\<rparr>)
   \<and> sr_type (sampleInstallationService\<lparr>sr_status := SCHEDULED\<rparr>)
       = ServiceRequestType_INSTALLATION
   \<and> \<not> noImages (images (withImages [''before.jpg'']))
   \<and> updateServiceRequestStatus ''2026-01-01T00:00:00.000Z''
       (sampleStore (sampleInstallationService\<lparr>sr_status := SCHEDULED\<rparr>))
       ''srq_1'' IN_PROGRESS admin (withImages [''before.jpg''])
     = (Inr (Some (sampleInstallationService
                     \<lparr>sr_status := IN_PROGRESS,
                      sr_beforeImages := Some [''before.jpg''],
                      sr_updatedAt := ''2026-01-01T00:00:00.000Z''\<rparr>)),
        sampleStore (sampleInstallationService
                       \<lparr>sr_status := IN_PROGRESS,
                        sr_beforeImages := Some [''before.jpg''],
                        sr_updatedAt := ''2026-01-01T00:00:00.000Z''\<rparr>))
   \<and> getServiceRequestById
       (sampleStore (sampleInstallationService
                       \<lparr>sr_status := IN_PROGRESS,
                        sr_beforeImages := Some [''before.jpg''],
                        sr_updatedAt := ''2026-01-01T00:00:00.000Z''\<rparr>)) ''srq_1''
     = Some (sampleInstallationService
               \<lparr>sr_status := IN_PROGRESS,
                sr_beforeImages := Some [''before.jpg''],
                sr_updatedAt := ''2026-01-01T00:00:00.000Z''\<rparr>)"
  using installation_start_requires_images
    [of "sampleStore (sampleInstallationService\<lparr>sr_status := SCHEDULED\<rparr>)"
        "''srq_1''" "sampleInstallationService\<lparr>sr_status := SCHEDULED\<rparr>"
        "withImages [''before.jpg'']" "''2026-01-01T00:00:00.000Z''" admin]
  by (simp add: scenario_defs update_defs ServiceRequestType_INSTALLATION_def)

text \<open>
  The image rule as the specification words it fails both ways: a general request
  starts without any image, and an installation request without an image is refused.
\<close>

theorem start_image_rule_counterexample:
  "updateServiceRequestStatus ''2026-01-01T00:00:00.000Z''
     (sampleStore (sampleRequest\<lparr>sr_status := SCHEDULED\<rparr>)) ''srq_1'' IN_PROGRESS admin noData
   = (Inr (Some (sampleRequest\<lparr>sr_status := IN_PROGRESS,
                               sr_updatedAt := ''2026-01-01T00:00:00.000Z''\<rparr>)),
      sampleStore (sampleRequest\<lparr>sr_status := IN_PROGRESS,
                                 sr_updatedAt := ''2026-01-01T00:00:00.000Z''\<rparr>))
   \<and> updateServiceRequestStatus ''2026-01-01T00:00:00.000Z''
       (sampleStore (sampleRequest\<lparr>sr_type := ''installation'', sr_status := SCHEDULED\<rparr>))
       ''srq_1'' IN_PROGRESS admin noData
     = (Inl (badRequest ''Before images are required to start installation service requests''),
        sampleStore (sampleRequest\<lparr>sr_type := ''installation'', sr_status := SCHEDULED\<rparr>))"
  by (simp add: sample_defs update_defs)

text \<open>
  C3. An installation request that does not require payment is in progress and
  completion images are supplied: \<^verbatim>\<open>updateServiceRequestStatus\<close> completes it, where the
  specification has it rejected. The installation rule that would reject it is the first test
  of \<^verbatim>\<open>validateInstallationSpecificTransitions\<close>, which is never reached.
\<close>

theorem installation_completes_without_payment_stage:
  "updateServiceRequestStatus ''2026-01-01T00:00:00.000Z''
     (sampleStore (sampleInstallationService\<lparr>sr_status := IN_PROGRESS\<rparr>))
     ''srq_1'' COMPLETED admin (withImages [''after.jpg''])
   = (Inr (Some (sampleInstallationService
                   \<lparr>sr_status := COMPLETED,
                    sr_afterImages := Some [''after.jpg''],
                    sr_updatedAt := ''2026-01-01T00:00:00.000Z''\<rparr>)),
      sampleStore (sampleInstallationService
                   \<lparr>sr_status := COMPLETED,
                    sr_afterImages := Some [''after.jpg''],
                    sr_updatedAt := ''2026-01-01T00:00:00.000Z''\<rparr>))
   \<and> sr_type sampleInstallationService = ServiceRequestType_INSTALLATION
   \<and> \<not> sr_requiresPayment sampleInstallationService
   \<and> validateInstallationSpecificTransitions
         (sampleStore (sampleInstallationService\<lparr>sr_status := IN_PROGRESS\<rparr>))
         (sampleInstallationService\<lparr>sr_status := IN_PROGRESS\<rparr>) IN_PROGRESS COMPLETED
         (Some \<lparr>beforeImages = None, afterImages = Some [''after.jpg'']\<rparr>)
       = Some (badRequest
           ''Installation service requests must go through PAYMENT_PENDING status before completion'')"
  by (simp add: scenario_defs update_defs validateInstallationSpecificTransitions_def
        ServiceRequestType_INSTALLATION_def)

text \<open>
  C4. A service request linked to installation request \<open>inst_1\<close> is started: the
  transition is accepted and the table of installation requests is as before, with
  \<open>inst_1\<close> still \<^verbatim>\<open>INSTALLATION_SCHEDULED\<close>. \<^verbatim>\<open>syncInstallationRequestStatus\<close> on the same
  store would have set it to \<^verbatim>\<open>INSTALLATION_IN_PROGRESS\<close>, but the update never calls it.
\<close>

theorem linked_installation_not_synchronised:
  "fst (updateServiceRequestStatus ''2026-01-01T00:00:00.000Z''
          (sampleStore (sampleInstallationService\<lparr>sr_status := SCHEDULED\<rparr>))
          ''srq_1'' IN_PROGRESS admin (withImages [''before.jpg'']))
   = Inr (Some (sampleInstallationService
                  \<lparr>sr_status := IN_PROGRESS,
                   sr_beforeImages := Some [''before.jpg''],
                   sr_updatedAt := ''2026-01-01T00:00:00.000Z''\<rparr>))
   \<and> installationRequests
        (snd (updateServiceRequestStatus ''2026-01-01T00:00:00.000Z''
               (sampleStore (sampleInstallationService\<lparr>sr_status := SCHEDULED\<rparr>))
               ''srq_1'' IN_PROGRESS admin (withImages [''before.jpg''])))
     = [sampleInstallationRequest]
   \<and> ir_status sampleInstallationRequest = Some INSTALLATION_SCHEDULED
   \<and> installationRequests
        (syncInstallationRequestStatus
           (sampleStore (sampleInstallationService\<lparr>sr_status := SCHEDULED\<rparr>))
           ''inst_1'' IN_PROGRESS)
     = [sampleInstallationRequest\<lparr>ir_status := Some INSTALLATION_IN_PROGRESS\<rparr>]"
  by (simp add: scenario_defs update_defs syncInstallationRequestStatus_def
        updateInstallationRequests_def)

text \<open>No status update writes to the table of installation requests.\<close>

lemma update_keeps_installationRequests:
  "installationRequests (snd (updateServiceRequestStatus nowIso st i status user d))
     = installationRequests st"
  by (simp add: updateServiceRequestStatus_def updateServiceRequests_def Let_def
        split: option.splits)

text \<open>
  C5. A completed service request is assigned by an administrator to a valid agent:
  \<^verbatim>\<open>assignServiceAgent\<close> sets its status to \<^verbatim>\<open>ASSIGNED\<close>. Scheduled by the administrator
  for a future date, it becomes \<^verbatim>\<open>SCHEDULED\<close>. Neither function looks at the current
  status.
\<close>

theorem completed_request_reopened:
  "assignServiceAgent ''2026-01-01T00:00:00.000Z''
     (sampleStore (sampleRequest\<lparr>sr_status := COMPLETED\<rparr>)) ''srq_1'' ''agent_1'' admin
   = (Inr (Some (sampleRequest\<lparr>sr_status := ASSIGNED,
                               sr_assignedToId := Some ''agent_1'',
                               sr_updatedAt := ''2026-01-01T00:00:00.000Z''\<rparr>)),
      sampleStore (sampleRequest\<lparr>sr_status := ASSIGNED,
                                 sr_assignedToId := Some ''agent_1'',
                                 sr_updatedAt := ''2026-01-01T00:00:00.000Z''\<rparr>))
   \<and> scheduleServiceRequest sampleParseDate sampleToISOString sampleNow
       (sampleStore (sampleRequest\<lparr>sr_status := COMPLETED\<rparr>)) ''srq_1''
       ''2030-01-01T00:00:00.000Z'' admin
     = (Inr (Some (sampleRequest\<lparr>sr_status := SCHEDULED,
                                 sr_scheduledDate := Some ''2030-01-01T00:00:00.000Z'',
                                 sr_updatedAt := ''2026-01-01T00:00:00.000Z''\<rparr>)),
        sampleStore (sampleRequest\<lparr>sr_status := SCHEDULED,
                                   sr_scheduledDate := Some ''2030-01-01T00:00:00.000Z'',
                                   sr_updatedAt := ''2026-01-01T00:00:00.000Z''\<rparr>))"
  by (simp add: scenario_defs assignServiceAgent_def scheduleServiceRequest_def
        hasSchedulePermission_def getServiceRequestById_def updateServiceRequests_def)

text \<open>The status update itself leaves a completed request as it is.\<close>

lemma completed_unchanged_by_update:
  assumes "getServiceRequestById st i = Some sr" and "sr_status sr = COMPLETED"
  shows "snd (updateServiceRequestStatus nowIso st i status user d) = st"
  using assms by (simp add: updateServiceRequestStatus_def)

text \<open>
  C6. An installation request waits for payment and the store holds no payment at
  all: with completion images \<^verbatim>\<open>updateServiceRequestStatus\<close> completes it. The check for
  a completed payment is the last test of \<^verbatim>\<open>validateInstallationSpecificTransitions\<close>,
  which rejects this input but is never reached.
\<close>

theorem installation_completes_without_payment_record:
  "payments (sampleStore (sampleInstallationService
                \<lparr>sr_status := PAYMENT_PENDING, sr_requiresPayment := True\<rparr>)) = []
   \<and> updateServiceRequestStatus ''2026-01-01T00:00:00.000Z''
       (sampleStore (sampleInstallationService
                       \<lparr>sr_status := PAYMENT_PENDING, sr_requiresPayment := True\<rparr>))
       ''srq_1'' COMPLETED admin (withImages [''after.jpg''])
     = (Inr (Some (sampleInstallationService
                     \<lparr>sr_status := COMPLETED,
                      sr_afterImages := Some [''after.jpg''],
                      sr_requiresPayment := True,
                      sr_updatedAt := ''2026-01-01T00:00:00.000Z''\<rparr>)),
        sampleStore (sampleInstallationService
                     \<lparr>sr_status := COMPLETED,
                      sr_afterImages := Some [''after.jpg''],
                      sr_requiresPayment := True,
                      sr_updatedAt := ''2026-01-01T00:00:00.000Z''\<rparr>))
   \<and> validateInstallationSpecificTransitions
         (sampleStore (sampleInstallationService
                         \<lparr>sr_status := PAYMENT_PENDING, sr_requiresPayment := True\<rparr>))
         (sampleInstallationService\<lparr>sr_status := PAYMENT_PENDING, sr_requiresPayment := True\<rparr>)
         PAYMENT_PENDING COMPLETED
         (Some \<lparr>beforeImages = None, afterImages = Some [''after.jpg'']\<rparr>)
       = Some (badRequest ''please complete payment first'')"
  by (simp add: scenario_defs update_defs validateInstallationSpecificTransitions_def
        completedInstallationPayment_def)

text \<open>The status update gives the same answer with and without payment records.\<close>

lemma update_ignores_payments:
  "fst (updateServiceRequestStatus nowIso (st\<lparr>payments := ps\<rparr>) i status user d)
     = fst (updateServiceRequestStatus nowIso st i status user d)"
  by (simp add: updateServiceRequestStatus_def getServiceRequestById_def
        updateServiceRequests_def Let_def split: option.splits)

text \<open>
  C7. The clock reads the first instant of 2026. An assigned request is moved to
  \<^verbatim>\<open>SCHEDULED\<close> by \<^verbatim>\<open>updateServiceRequestStatus\<close> with a date in the year 2000: accepted,
  and the past date is stored, although \<^verbatim>\<open>scheduleServiceRequest\<close> refuses the same date
  on the same store. A request with no agent is scheduled by an administrator through
  \<^verbatim>\<open>scheduleServiceRequest\<close> for 2030: accepted, with \<^verbatim>\<open>assignedToId\<close> still null.
\<close>

theorem scheduling_checks_not_shared:
  "sampleParseDate ''2000-01-01T00:00:00.000Z'' = Some 946684800000
   \<and> 946684800000 \<le> sampleNow
   \<and> updateServiceRequestStatus ''2026-01-01T00:00:00.000Z''
       (sampleStore (sampleRequest\<lparr>sr_status := ASSIGNED, sr_assignedToId := Some ''agent_1''\<rparr>))
       ''srq_1'' SCHEDULED admin (noData\<lparr>scheduledDate := Some ''2000-01-01T00:00:00.000Z''\<rparr>)
     = (Inr (Some (sampleRequest\<lparr>sr_status := SCHEDULED,
                                 sr_assignedToId := Some ''agent_1'',
                                 sr_scheduledDate := Some ''2000-01-01T00:00:00.000Z'',
                                 sr_updatedAt := ''2026-01-01T00:00:00.000Z''\<rparr>)),
        sampleStore (sampleRequest\<lparr>sr_status := SCHEDULED,
                                   sr_assignedToId := Some ''agent_1'',
                                   sr_scheduledDate := Some ''2000-01-01T00:00:00.000Z'',
                                   sr_updatedAt := ''2026-01-01T00:00:00.000Z''\<rparr>))
   \<and> scheduleServiceRequest sampleParseDate sampleToISOString sampleNow
       (sampleStore (sampleRequest\<lparr>sr_status := ASSIGNED, sr_assignedToId := Some ''agent_1''\<rparr>))
       ''srq_1'' ''2000-01-01T00:00:00.000Z'' admin
     = (Inl (badRequest ''Scheduled date must be in the future''),
        sampleStore (sampleRequest\<lparr>sr_status := ASSIGNED, sr_assignedToId := Some ''agent_1''\<rparr>))
   \<and> sr_assignedToId sampleRequest = None
   \<and> scheduleServiceRequest sampleParseDate sampleToISOString sampleNow
       (sampleStore sampleRequest) ''srq_1'' ''2030-01-01T00:00:00.000Z'' admin
     = (Inr (Some (sampleRequest\<lparr>sr_status := SCHEDULED,
                                 sr_scheduledDate := Some ''2030-01-01T00:00:00.000Z'',
                                 sr_updatedAt := ''2026-01-01T00:00:00.000Z''\<rparr>)),
        sampleStore (sampleRequest\<lparr>sr_status := SCHEDULED,
                                   sr_scheduledDate := Some ''2030-01-01T00:00:00.000Z'',
                                   sr_updatedAt := ''2026-01-01T00:00:00.000Z''\<rparr>))"
  by (simp add: scenario_defs update_defs scheduleServiceRequest_def hasSchedulePermission_def)


text \<open>
  What each path does check: the status update asks for an assigned agent and a
  supplied date, and \<^verbatim>\<open>scheduleServiceRequest\<close> refuses a date that is not after the clock.
\<close>

lemma update_to_scheduled_needs_agent_and_date:
  assumes "getServiceRequestById st i = Some sr"
    and "updateServiceRequestStatus nowIso st i SCHEDULED user d = (Inr res, st')"
  shows "truthy (sr_assignedToId sr) \<and> truthy (scheduledDate d)"
  using assms
  by (auto simp: updateServiceRequestStatus_def Let_def split: if_splits option.splits)

lemma schedule_rejects_date_not_in_future:
  assumes "getServiceRequestById st i = Some sr"
    and "hasSchedulePermission st sr user"
    and "parseDate t = Some instant"
    and "instant \<le> now"
  shows "scheduleServiceRequest parseDate toISOString now st i t user =
           (Inl (badRequest ''Scheduled date must be in the future''), st)"
  using assms by (simp add: scheduleServiceRequest_def)

text \<open>
  C8. A service request that requires payment and is in progress cannot be completed
  directly: the request for \<^verbatim>\<open>COMPLETED\<close> is rejected with a bad-request error, for the
  missing images when none are supplied and otherwise because it has to go through
  \<^verbatim>\<open>PAYMENT_PENDING\<close> first, and the store is returned as it was.
\<close>

theorem payment_required_blocks_direct_completion:
  assumes "getServiceRequestById st i = Some sr"
    and "sr_requiresPayment sr"
    and "sr_status sr = IN_PROGRESS"
  shows "updateServiceRequestStatus nowIso st i COMPLETED user d =
           (Inl (badRequest
              (if noImages (images d)
               then ''Completion images are required to mark as completed''
               else ''Service requests requiring payment must go through PAYMENT_PENDING status first'')),
            st)"
  using assms by (simp add: updateServiceRequestStatus_def)

theorem payment_required_blocks_direct_completion_witness:
  "updateServiceRequestStatus ''2026-01-01T00:00:00.000Z''
     (sampleStore (sampleRequest\<lparr>sr_status := IN_PROGRESS, sr_requiresPayment := True\<rparr>))
     ''srq_1'' COMPLETED admin (withImages [''after.jpg''])
   = (Inl (badRequest
        ''Service requests requiring payment must go through PAYMENT_PENDING status first''),
      sampleStore (sampleRequest\<lparr>sr_status := IN_PROGRESS, sr_requiresPayment := True\<rparr>))"
  using payment_required_blocks_direct_completion
    [of "sampleStore (sampleRequest\<lparr>sr_status := IN_PROGRESS, sr_requiresPayment := True\<rparr>)"
        "''srq_1''" "sampleRequest\<lparr>sr_status := IN_PROGRESS, sr_requiresPayment := True\<rparr>"
        "''2026-01-01T00:00:00.000Z''" admin "withImages [''after.jpg'']"]
  by (simp add: scenario_defs getServiceRequestById_def noImages_def)

text \<open>
  Whenever the status update completes a request that requires payment, the request
  was waiting for payment.
\<close>

lemma completion_of_payable_request_comes_from_payment_pending:
  assumes "getServiceRequestById st i = Some sr"
    and "sr_requiresPayment sr"
    and "updateServiceRequestStatus nowIso st i COMPLETED user d = (Inr res, st')"
  shows "sr_status sr = PAYMENT_PENDING"
  using assms
  by (cases "sr_status sr")
     (auto simp: updateServiceRequestStatus_def Let_def split: if_splits option.splits)

text \<open>
  C9. A created request is assigned through \<^verbatim>\<open>updateServiceRequestStatus\<close> with agent
  \<open>agent_1\<close>: the status becomes \<^verbatim>\<open>ASSIGNED\<close> and \<^verbatim>\<open>assignedToId\<close> stays null, because the
  agent is written under the key \<^verbatim>\<open>assignedAgentId\<close>; the request can then not be
  scheduled. A request in progress is completed: \<^verbatim>\<open>completedDate\<close> stays null, because
  the date is written under the key \<^verbatim>\<open>completedAt\<close>.
\<close>

theorem assignee_and_completion_date_not_written:
  "updateServiceRequestStatus ''2026-01-01T00:00:00.000Z''
     (sampleStore sampleRequest) ''srq_1'' ASSIGNED admin (noData\<lparr>agentId := Some ''agent_1''\<rparr>)
   = (Inr (Some (sampleRequest\<lparr>sr_status := ASSIGNED,
                               sr_assignedToId := None,
                               sr_updatedAt := ''2026-01-01T00:00:00.000Z''\<rparr>)),
      sampleStore (sampleRequest\<lparr>sr_status := ASSIGNED,
                                 sr_assignedToId := None,
                                 sr_updatedAt := ''2026-01-01T00:00:00.000Z''\<rparr>))
   \<and> updateServiceRequestStatus ''2026-01-02T00:00:00.000Z''
       (sampleStore (sampleRequest\<lparr>sr_status := ASSIGNED,
                                   sr_assignedToId := None,
                                   sr_updatedAt := ''2026-01-01T00:00:00.000Z''\<rparr>))
       ''srq_1'' SCHEDULED admin (noData\<lparr>scheduledDate := Some ''2030-01-01T00:00:00.000Z''\<rparr>)
     = (Inl (badRequest ''Cannot schedule without assigned agent''),
        sampleStore (sampleRequest\<lparr>sr_status := ASSIGNED,
                                   sr_assignedToId := None,
                                   sr_updatedAt := ''2026-01-01T00:00:00.000Z''\<rparr>))
   \<and> updateServiceRequestStatus ''2026-01-01T00:00:00.000Z''
       (sampleStore (sampleRequest\<lparr>sr_status := IN_PROGRESS\<rparr>))
       ''srq_1'' COMPLETED admin (withImages [''after.jpg''])
     = (Inr (Some (sampleRequest\<lparr>sr_status := COMPLETED,
                                 sr_completedDate := None,
                                 sr_afterImages := Some [''after.jpg''],
                                 sr_updatedAt := ''2026-01-01T00:00:00.000Z''\<rparr>)),
        sampleStore (sampleRequest\<lparr>sr_status := COMPLETED,
                                   sr_completedDate := None,
                                   sr_afterImages := Some [''after.jpg''],
                                   sr_updatedAt := ''2026-01-01T00:00:00.000Z''\<rparr>))"
  by (simp add: scenario_defs update_defs)

text \<open>
  On every accepted status update the row read back differs from the row found only in
  the status, the update time, the scheduled date, the payment amount and the two
  image columns.
\<close>

lemma update_frame:
  assumes "getServiceRequestById st i = Some sr"
    and "updateServiceRequestStatus nowIso st i status user d = (Inr res, st')"
  shows "\<exists>sr'. res = Some sr'
           \<and> sr' = sr\<lparr>sr_status := sr_status sr', sr_updatedAt := sr_updatedAt sr',
                      sr_scheduledDate := sr_scheduledDate sr',
                      sr_paymentAmount := sr_paymentAmount sr',
                      sr_beforeImages := sr_beforeImages sr',
                      sr_afterImages := sr_afterImages sr'\<rparr>"
  using assms
  by (auto simp: updateServiceRequestStatus_def Let_def getServiceRequestById_updated
        setUpdateData_id setUpdateData_def split: if_splits option.splits)

lemma find_Some_member: "find P xs = Some x \<Longrightarrow> x \<in> set xs \<and> P x"
  by (induction xs) (auto split: if_splits)

text \<open>
  C10. When the installation request exists and a service request of type installation
  linked to it exists already, \<^verbatim>\<open>createInstallationServiceRequest\<close> succeeds for every
  acting user and every supplied agent id: afterwards the table holds that service
  request with status \<^verbatim>\<open>SCHEDULED\<close> and with the supplied agent id as \<^verbatim>\<open>assignedToId\<close>
  (its former value when none is supplied), and the installation request with status
  \<^verbatim>\<open>INSTALLATION_SCHEDULED\<close>.
\<close>

theorem existing_installation_service_rescheduled_unchecked:
  assumes "find (\<lambda>r. ir_id r = installationRequestId d) (installationRequests st)
             = Some installationRequest"
    and "existingInstallationServiceRequest st (installationRequestId d)
             = Some existingServiceRequest"
  shows "\<exists>res st'.
           createInstallationServiceRequest newId nowIso st d user = (Inr res, st')
           \<and> existingServiceRequest
                \<lparr>sr_status := SCHEDULED,
                 sr_assignedToId :=
                   (case assignedToId d of
                      None \<Rightarrow> sr_assignedToId existingServiceRequest
                    | Some a \<Rightarrow> Some a)\<rparr>
               \<in> set (serviceRequests st')
           \<and> installationRequest\<lparr>ir_status := Some INSTALLATION_SCHEDULED\<rparr>
               \<in> set (installationRequests st')"
proof -
  let ?st' = "rescheduleExisting st existingServiceRequest installationRequest d"
  have run: "createInstallationServiceRequest newId nowIso st d user
               = (Inr (getServiceRequestById ?st' newId), ?st')"
    using assms by (simp add: createInstallationServiceRequest_def Let_def)
  have "existingServiceRequest \<in> set (serviceRequests st)"
    using assms(2) find_Some_member
    unfolding existingInstallationServiceRequest_def by fastforce
  then have sr: "existingServiceRequest
                \<lparr>sr_status := SCHEDULED,
                 sr_assignedToId :=
                   (case assignedToId d of
                      None \<Rightarrow> sr_assignedToId existingServiceRequest
                    | Some a \<Rightarrow> Some a)\<rparr> \<in> set (serviceRequests ?st')"
    by (force simp: rescheduleExisting_def updateServiceRequests_def
          updateInstallationRequests_def)
  have "installationRequest \<in> set (installationRequests st)"
    using assms(1) find_Some_member by fastforce
  then have ir: "installationRequest\<lparr>ir_status := Some INSTALLATION_SCHEDULED\<rparr>
                   \<in> set (installationRequests ?st')"
    by (force simp: rescheduleExisting_def updateServiceRequests_def
          updateInstallationRequests_def)
  from run sr ir show ?thesis by blast
qed

theorem existing_installation_service_rescheduled_unchecked_witness:
  "createInstallationServiceRequest ''srq_2'' ''2026-01-01T00:00:00.000Z''
     (sampleStore (sampleInstallationService\<lparr>sr_status := IN_PROGRESS\<rparr>))
     sampleInstallationData customer
   = (Inr None,
      (sampleStore (sampleInstallationService
                      \<lparr>sr_status := SCHEDULED, sr_assignedToId := Some ''nobody''\<rparr>))
        \<lparr>installationRequests :=
           [sampleInstallationRequest\<lparr>ir_status := Some INSTALLATION_SCHEDULED\<rparr>]\<rparr>)"
  using existing_installation_service_rescheduled_unchecked
    [of sampleInstallationData
        "sampleStore (sampleInstallationService\<lparr>sr_status := IN_PROGRESS\<rparr>)"
        sampleInstallationRequest
        "sampleInstallationService\<lparr>sr_status := IN_PROGRESS\<rparr>"
        "''srq_2''" "''2026-01-01T00:00:00.000Z''" customer]
  by (simp add: scenario_defs createInstallationServiceRequest_def
        existingInstallationServiceRequest_def ServiceRequestType_INSTALLATION_def
        rescheduleExisting_def updateServiceRequests_def updateInstallationRequests_def
        getServiceRequestById_def)

text \<open>
  The ownership test and the agent test belong to the branch that inserts a new row:
  without an existing service request a franchise owner who does not own the
  franchise of the installation is refused, and so is an agent id that names no
  service agent.
\<close>

lemma new_installation_service_checks_owner:
  assumes "find (\<lambda>r. ir_id r = installationRequestId d) (installationRequests st)
             = Some installationRequest"
    and "existingInstallationServiceRequest st (installationRequestId d) = None"
    and "role user = FRANCHISE_OWNER"
    and "\<forall>franchise. getFranchiseById st (ir_franchiseId installationRequest) = Some franchise
           \<longrightarrow> f_ownerId franchise \<noteq> userId user"
  shows "createInstallationServiceRequest newId nowIso st d user =
           (Inl (forbidden ''Installation request is not in your franchise area''), st)"
  using assms
  by (auto simp: createInstallationServiceRequest_def split: option.splits)

lemma new_installation_service_checks_agent:
  assumes "find (\<lambda>r. ir_id r = installationRequestId d) (installationRequests st)
             = Some installationRequest"
    and "existingInstallationServiceRequest st (installationRequestId d) = None"
    and "role user = ADMIN"
    and "truthy (assignedToId d)"
    and "\<forall>agent. find (\<lambda>u. Some (u_id u) = assignedToId d) (users st) = Some agent
           \<longrightarrow> u_role agent \<noteq> SERVICE_AGENT"
  shows "createInstallationServiceRequest newId nowIso st d user =
           (Inl (badRequest ''Invalid service agent''), st)"
  using assms
  by (auto simp: createInstallationServiceRequest_def split: option.splits)

end
